theory Spec2Isabelle
  imports Complex_Main "HOL-Library.AList" "HOL-Library.Sublist"
begin

text \<open>
  The alert server keeps, per push token, a location and the alert types already sent; a
  periodic sweep fetches the weather at each location, classifies it and pushes the
  alerts that are new. The definitions follow \<^verbatim>\<open>src/server.js\<close>, the Expo backend.
  The older Firebase backend has the same \<^verbatim>\<open>evaluateRisk\<close> and the same filters in
  \<^verbatim>\<open>checkAllUsers\<close>; it has no \<^verbatim>\<open>appOpen\<close> flag, its \<^verbatim>\<open>/update-location\<close> answers 404
  for an unknown token, and its sender deletes the token on the Firebase error codes.
\<close>

section \<open>Values received from JSON\<close>

text \<open>
  Request bodies and stored coordinates are whatever \<^verbatim>\<open>express.json()\<close> parsed:
  any JSON value, or \<^verbatim>\<open>undefined\<close> for a field that is not in the body. Numbers are
  the finite numbers a JSON text denotes, taken here as reals.
\<close>

datatype jsval =
    JUndefined
  | JNull
  | JBool bool
  | JNum real
  | JStr string
  | JArr "jsval list"
  | JObj "(string \<times> jsval) list"

text \<open>JavaScript's truthiness, as used by \<^verbatim>\<open>!x\<close> and \<^verbatim>\<open>if (x)\<close>.\<close>

fun truthy :: "jsval \<Rightarrow> bool" where
  "truthy JUndefined = False"
| "truthy JNull = False"
| "truthy (JBool b) = b"
| "truthy (JNum n) = (n \<noteq> 0)"
| "truthy (JStr s) = (s \<noteq> [])"
| "truthy (JArr xs) = True"
| "truthy (JObj kvs) = True"

text \<open>The operator \<^verbatim>\<open>a ?? b\<close>: \<^verbatim>\<open>b\<close> only when \<^verbatim>\<open>a\<close> is null or undefined.\<close>

fun nullish_or :: "jsval \<Rightarrow> jsval \<Rightarrow> jsval" where
  "nullish_or JUndefined d = d"
| "nullish_or JNull d = d"
| "nullish_or v d = v"

section \<open>Risk thresholds\<close>

definition PM25_WARNING :: real where "PM25_WARNING = 12"
definition PM25_SEVERE :: real where "PM25_SEVERE = 35"
definition PM25_DANGER :: real where "PM25_DANGER = 55"
definition UV_WARNING :: real where "UV_WARNING = 3"
definition UV_DANGER :: real where "UV_DANGER = 6"
definition TEMP_WARNING :: real where "TEMP_WARNING = 35"
definition TEMP_DANGER :: real where "TEMP_DANGER = 40"
definition VISIBILITY_WARNING :: real where "VISIBILITY_WARNING = 5"
definition VISIBILITY_DANGER :: real where "VISIBILITY_DANGER = 2"
definition WIND_WARNING :: real where "WIND_WARNING = 40"
definition WIND_DANGER :: real where "WIND_DANGER = 70"

section \<open>Risk engine\<close>

text \<open>
  The body of a weather response, as far as \<^verbatim>\<open>evaluateRisk\<close> reads it. Every level
  is reached through \<^verbatim>\<open>?.\<close>, so each level and each number may be missing
  (\<open>None\<close> stands for null and undefined alike, which \<^verbatim>\<open>== null\<close> does not tell apart).
\<close>

record air_quality =
  pm2_5 :: "real option"

record current =
  air_quality :: "air_quality option"
  uv :: "real option"
  temp_c :: "real option"
  vis_km :: "real option"
  wind_kph :: "real option"

record weather =
  current :: "current option"

text \<open>
  An alert's message is a fixed sentence around the number that triggered it. The
  constructor names the sentence and carries the number; the rendering of the number
  into text (\<^verbatim>\<open>toFixed(1)\<close> for PM2.5) is not modelled.
\<close>

datatype message =
    Hazardous_air real
  | Unhealthy_air real
  | Extreme_UV real
  | Extreme_heat real
  | Very_poor_visibility real
  | Storm_level_winds real

record alert =
  type :: string
  severity :: string
  message :: message

text \<open>The five reads at the head of \<^verbatim>\<open>evaluateRisk\<close>, such as \<^verbatim>\<open>data?.current?.uv\<close>.\<close>

definition data_pm25 :: "weather option \<Rightarrow> real option" where
  "data_pm25 data = Option.bind (Option.bind (Option.bind data current) air_quality) pm2_5"

definition data_uv :: "weather option \<Rightarrow> real option" where
  "data_uv data = Option.bind (Option.bind data current) uv"

definition data_temp :: "weather option \<Rightarrow> real option" where
  "data_temp data = Option.bind (Option.bind data current) temp_c"

definition data_visibility :: "weather option \<Rightarrow> real option" where
  "data_visibility data = Option.bind (Option.bind data current) vis_km"

definition data_wind :: "weather option \<Rightarrow> real option" where
  "data_wind data = Option.bind (Option.bind data current) wind_kph"

definition evaluateRisk :: "weather option \<Rightarrow> alert list" where
  "evaluateRisk data =
    (let pm25 = data_pm25 data;
         uv = data_uv data;
         temp = data_temp data;
         visibility = data_visibility data;
         wind = data_wind data
     in case (pm25, uv, temp, visibility) of
          (Some p, Some u, Some t, Some v) \<Rightarrow>
            (if p > PM25_DANGER then
               [\<lparr>type = ''AirQuality_danger'', severity = ''danger'',
                 message = Hazardous_air p\<rparr>]
             else if p > PM25_SEVERE then
               [\<lparr>type = ''AirQuality_severe'', severity = ''severe'',
                 message = Unhealthy_air p\<rparr>]
             else [])
            @ (if u > UV_DANGER then
                 [\<lparr>type = ''UV_danger'', severity = ''danger'', message = Extreme_UV u\<rparr>]
               else [])
            @ (if t > TEMP_DANGER then
                 [\<lparr>type = ''Temp_danger'', severity = ''danger'', message = Extreme_heat t\<rparr>]
               else [])
            @ (if v < VISIBILITY_DANGER then
                 [\<lparr>type = ''Visibility_danger'', severity = ''danger'',
                   message = Very_poor_visibility v\<rparr>]
               else [])
            @ (case wind of
                 None \<Rightarrow> []
               | Some w \<Rightarrow>
                   if w > WIND_DANGER then
                     [\<lparr>type = ''Wind_danger'', severity = ''danger'',
                       message = Storm_level_winds w\<rparr>]
                   else [])
        | _ \<Rightarrow> [])"

text \<open>
  The weather response that carries the five readings of a snapshot, each present or
  absent.
\<close>

definition snapshot ::
    "real option \<Rightarrow> real option \<Rightarrow> real option \<Rightarrow> real option \<Rightarrow> real option \<Rightarrow> weather option" where
  "snapshot pm25 uv_index tempC visibilityKm windKph =
     Some \<lparr>current = Some \<lparr>air_quality = Some \<lparr>pm2_5 = pm25\<rparr>, uv = uv_index,
                            temp_c = tempC, vis_km = visibilityKm, wind_kph = windKph\<rparr>\<rparr>"

section \<open>The in-memory token store\<close>

text \<open>
  \<^verbatim>\<open>userStore\<close> is a JavaScript \<^verbatim>\<open>Map\<close> from the push token to the user object. A
  \<^verbatim>\<open>Map\<close> keeps its entries in insertion order, \<^verbatim>\<open>set\<close> on a key it has replaces
  the value in place, and \<^verbatim>\<open>set\<close> on a new key appends: that is \<open>AList.update\<close>.
  \<^verbatim>\<open>delete\<close> is \<open>AList.delete\<close>, \<^verbatim>\<open>get\<close> is \<open>map_of\<close>. The coordinates and
  \<^verbatim>\<open>appOpen\<close> are stored as received, so they are JSON values.
\<close>

record user =
  fcmToken :: string
  latitude :: jsval
  longitude :: jsval
  appOpen :: jsval
  lastAlertedTypes :: "string list"

type_synonym userStore = "(string \<times> user) list"

section \<open>The outside world\<close>

text \<open>
  An awaited HTTP call either rejects (the \<^verbatim>\<open>catch\<close> branch runs) or resolves
  with a value.
\<close>

datatype 'a awaited = Rejects | Resolves 'a

text \<open>
  The per-message result of the Expo push API, \<^verbatim>\<open>response.data?.data\<close>, as far as
  the sender reads it: \<^verbatim>\<open>status\<close> and \<^verbatim>\<open>details?.error\<close>.
\<close>

record expo_result =
  status :: string
  details_error :: "string option"

text \<open>
  The two services the sweep calls. What the weather service answers is a function of
  the subscriber being checked and the coordinates sent; what the push service answers
  is a function of the token and the alert sent. The sweep asks at most once per
  subscriber and per alert, so any run of the services is such a function.
\<close>

record env =
  weather_get :: "string \<Rightarrow> jsval \<Rightarrow> jsval \<Rightarrow> weather option awaited"
  expo_post :: "string \<Rightarrow> alert \<Rightarrow> expo_result option awaited"

text \<open>
  What a sweep does to the outside world: the requests it sends, in order. A weather
  request is tagged with the token of the subscriber it is made for.
\<close>

datatype event =
    Fetch string jsval jsval
  | Push string string alert

fun event_token :: "event \<Rightarrow> string" where
  "event_token (Fetch tok lat lon) = tok"
| "event_token (Push tok title a) = tok"

section \<open>Expo push notification sender\<close>

text \<open>
  \<^verbatim>\<open>sendExpoPushNotification\<close>: posts the alert, and deletes the token from the store
  when Expo answers that the device is not registered or the credentials are invalid.
  Every failure is caught inside, so the function always returns. (The titles carry an
  emoji in the source, left out here.)
\<close>

definition sendExpoPushNotification ::
    "env \<Rightarrow> string \<Rightarrow> alert \<Rightarrow> userStore \<Rightarrow> userStore \<times> event list" where
  "sendExpoPushNotification e expoToken a userStore =
    (let title = (if severity a = ''danger'' then ''Dangerous Condition''
                  else ''Severe Condition'')
     in (case expo_post e expoToken a of
           Rejects \<Rightarrow> userStore
         | Resolves None \<Rightarrow> userStore
         | Resolves (Some result) \<Rightarrow>
             if status result = ''error'' then
               (if details_error result = Some ''DeviceNotRegistered'' \<or>
                   details_error result = Some ''InvalidCredentials''
                then AList.delete expoToken userStore
                else userStore)
             else userStore,
         [Push expoToken title a]))"

text \<open>
  The answers of the push service on which the sender deletes the token: a result with
  status \<^verbatim>\<open>error\<close> whose \<^verbatim>\<open>details.error\<close> is \<^verbatim>\<open>DeviceNotRegistered\<close> or
  \<^verbatim>\<open>InvalidCredentials\<close>.
\<close>

definition permanently_invalid :: "expo_result option awaited \<Rightarrow> bool" where
  "permanently_invalid r =
    (case r of
       Resolves (Some result) \<Rightarrow>
         status result = ''error'' \<and>
         (details_error result = Some ''DeviceNotRegistered'' \<or>
          details_error result = Some ''InvalidCredentials'')
     | _ \<Rightarrow> False)"

section \<open>Checking all registered users\<close>

text \<open>
  The two filters and the final assignment inside \<^verbatim>\<open>checkAllUsers\<close>: from the alerts
  of this sweep and the types alerted before, the alerts to send and the types to store.
\<close>

definition severeAndAbove :: "alert list \<Rightarrow> alert list" where
  "severeAndAbove allAlerts =
     filter (\<lambda>a. severity a = ''severe'' \<or> severity a = ''danger'') allAlerts"

definition reconcile :: "alert list \<Rightarrow> string list \<Rightarrow> alert list \<times> string list" where
  "reconcile allAlerts lastAlertedTypes0 =
    (let newAlerts = filter (\<lambda>a. type a \<notin> set lastAlertedTypes0) (severeAndAbove allAlerts)
     in (newAlerts, map type (severeAndAbove allAlerts)))"

text \<open>The loop \<^verbatim>\<open>for (const alert of newAlerts) await sendExpoPushNotification(...)\<close>.\<close>

fun send_newAlerts :: "env \<Rightarrow> string \<Rightarrow> alert list \<Rightarrow> userStore \<Rightarrow> userStore \<times> event list" where
  "send_newAlerts e expoToken [] userStore = (userStore, [])"
| "send_newAlerts e expoToken (a # as) userStore =
    (let (userStore1, ev1) = sendExpoPushNotification e expoToken a userStore;
         (userStore2, ev2) = send_newAlerts e expoToken as userStore1
     in (userStore2, ev1 @ ev2))"

text \<open>
  The body of the loop over the store, for the entry \<open>(expoToken, u)\<close>. The last
  statement, \<^verbatim>\<open>user.lastAlertedTypes = ...\<close>, writes into the object \<open>u\<close>; the store
  shows the write exactly when it still holds that object, that is, unless the sender
  deleted the token meanwhile.
\<close>

definition checkAllUsers_body ::
    "env \<Rightarrow> string \<Rightarrow> user \<Rightarrow> userStore \<Rightarrow> userStore \<times> event list" where
  "checkAllUsers_body e expoToken u userStore =
    (if truthy (appOpen u) then (userStore, [])
     else
       case weather_get e expoToken (latitude u) (longitude u) of
         Rejects \<Rightarrow> (userStore, [Fetch expoToken (latitude u) (longitude u)])
       | Resolves data \<Rightarrow>
           (let allAlerts = evaluateRisk data;
                (newAlerts, types) = reconcile allAlerts (lastAlertedTypes u);
                (userStore1, ev) = send_newAlerts e expoToken newAlerts userStore;
                userStore2 =
                  (case map_of userStore1 expoToken of
                     None \<Rightarrow> userStore1
                   | Some _ \<Rightarrow>
                       AList.update expoToken (u\<lparr>lastAlertedTypes := types\<rparr>) userStore1)
            in (userStore2, Fetch expoToken (latitude u) (longitude u) # ev)))"

text \<open>
  The loop \<^verbatim>\<open>for (const [expoToken, user] of userStore.entries())\<close>. The iterator of
  a \<^verbatim>\<open>Map\<close> is live: it visits the keys in insertion order and yields the entry the
  store holds when the key is reached, passing over a key deleted before.
\<close>

fun checkAllUsers_loop :: "env \<Rightarrow> string list \<Rightarrow> userStore \<Rightarrow> userStore \<times> event list" where
  "checkAllUsers_loop e [] userStore = (userStore, [])"
| "checkAllUsers_loop e (expoToken # rest) userStore =
    (case map_of userStore expoToken of
       None \<Rightarrow> checkAllUsers_loop e rest userStore
     | Some u \<Rightarrow>
         (let (userStore1, ev1) = checkAllUsers_body e expoToken u userStore;
              (userStore2, ev2) = checkAllUsers_loop e rest userStore1
          in (userStore2, ev1 @ ev2)))"

definition checkAllUsers :: "env \<Rightarrow> userStore \<Rightarrow> userStore \<times> event list" where
  "checkAllUsers e userStore =
    (if length userStore = 0 then (userStore, [])
     else checkAllUsers_loop e (map fst userStore) userStore)"

section \<open>Routes\<close>

text \<open>
  A handler answers with a status and a JSON body, or throws: calling
  \<^verbatim>\<open>startsWith\<close> on a token that is not a string is a \<^verbatim>\<open>TypeError\<close>, which Express
  turns into a 500 without the handler going further.
\<close>

datatype response =
    Json nat "(string \<times> jsval) list"
  | TypeError

record body =
  body_fcmToken :: jsval
  body_latitude :: jsval
  body_longitude :: jsval
  body_appOpen :: jsval

definition register :: "body \<Rightarrow> userStore \<Rightarrow> userStore \<times> response" where
  "register req userStore =
    (if \<not> truthy (body_fcmToken req) \<or> \<not> truthy (body_latitude req)
        \<or> \<not> truthy (body_longitude req) then
       (userStore,
        Json 400 [(''error'', JStr ''fcmToken, latitude, and longitude are required.'')])
     else
       case body_fcmToken req of
         JStr tok \<Rightarrow>
           if \<not> prefix ''ExponentPushToken['' tok then
             (userStore,
              Json 400 [(''error'',
                JStr ''Invalid token format. Expected ExponentPushToken[...].'')])
           else
             (AList.update tok
                \<lparr>fcmToken = tok, latitude = body_latitude req,
                 longitude = body_longitude req, appOpen = JBool False,
                 lastAlertedTypes = []\<rparr> userStore,
              Json 200 [(''success'', JBool True),
                        (''message'', JStr ''Device registered for push alerts.'')])
       | _ \<Rightarrow> (userStore, TypeError))"

definition update_location :: "body \<Rightarrow> userStore \<Rightarrow> userStore \<times> response" where
  "update_location req userStore =
    (if \<not> truthy (body_fcmToken req) \<or> \<not> truthy (body_latitude req)
        \<or> \<not> truthy (body_longitude req) then
       (userStore,
        Json 400 [(''error'', JStr ''fcmToken, latitude, and longitude are required.'')])
     else
       case body_fcmToken req of
         JStr tok \<Rightarrow>
           (case map_of userStore tok of
              None \<Rightarrow>
                if \<not> prefix ''ExponentPushToken['' tok then
                  (userStore, Json 400 [(''error'', JStr ''Invalid token format.'')])
                else
                  (AList.update tok
                     \<lparr>fcmToken = tok, latitude = body_latitude req,
                      longitude = body_longitude req,
                      appOpen = nullish_or (body_appOpen req) (JBool False),
                      lastAlertedTypes = []\<rparr> userStore,
                   Json 200 [(''success'', JBool True),
                             (''message'', JStr ''Device auto-registered.'')])
            | Some u \<Rightarrow>
                (AList.update tok
                   (u\<lparr>latitude := body_latitude req, longitude := body_longitude req,
                      appOpen := nullish_or (body_appOpen req) (JBool False)\<rparr>) userStore,
                 Json 200 [(''success'', JBool True)]))
       | _ \<Rightarrow> (userStore, TypeError))"

section \<open>Properties of the risk engine\<close>

lemmas RISK_LIMITS =
  PM25_SEVERE_def PM25_DANGER_def UV_DANGER_def TEMP_DANGER_def
  VISIBILITY_DANGER_def WIND_DANGER_def

lemmas data_reads = data_pm25_def data_uv_def data_temp_def data_visibility_def data_wind_def

lemma data_snapshot [simp]:
  "data_pm25 (snapshot p u t v w) = p" "data_uv (snapshot p u t v w) = u"
  "data_temp (snapshot p u t v w) = t" "data_visibility (snapshot p u t v w) = v"
  "data_wind (snapshot p u t v w) = w"
  by (simp_all add: data_reads snapshot_def)

lemma evaluateRisk_gate:
  "data_pm25 d = None \<or> data_uv d = None \<or> data_temp d = None \<or> data_visibility d = None
     \<Longrightarrow> evaluateRisk d = []"
  by (auto simp: evaluateRisk_def Let_def split: option.splits)

lemma evaluateRisk_present:
  assumes "data_pm25 d = Some p" "data_uv d = Some u" "data_temp d = Some t"
    "data_visibility d = Some v"
  shows "map type (evaluateRisk d) =
     (if p > 55 then [''AirQuality_danger''] else if p > 35 then [''AirQuality_severe''] else [])
     @ (if u > 6 then [''UV_danger''] else [])
     @ (if t > 40 then [''Temp_danger''] else [])
     @ (if v < 2 then [''Visibility_danger''] else [])
     @ (case data_wind d of None \<Rightarrow> [] | Some w \<Rightarrow> if w > 70 then [''Wind_danger''] else [])"
  using assms by (simp add: evaluateRisk_def Let_def RISK_LIMITS split: option.splits)

text \<open>
  C3. A response in which PM2.5, UV, temperature or visibility is absent gives no alert
  at all. A missing wind speed alone does not: with the other four present, each of the
  four is still judged against its threshold, and only the wind alert cannot appear.
\<close>

theorem evaluateRisk_required_fields:
  "(data_pm25 d = None \<or> data_uv d = None \<or> data_temp d = None \<or> data_visibility d = None
      \<longrightarrow> evaluateRisk d = [])
   \<and> (let types = set (map type (evaluateRisk (snapshot (Some p) (Some u) (Some t) (Some v) None)))
      in (''AirQuality_danger'' \<in> types \<longleftrightarrow> p > 55)
       \<and> (''AirQuality_severe'' \<in> types \<longleftrightarrow> 35 < p \<and> p \<le> 55)
       \<and> (''UV_danger'' \<in> types \<longleftrightarrow> u > 6)
       \<and> (''Temp_danger'' \<in> types \<longleftrightarrow> t > 40)
       \<and> (''Visibility_danger'' \<in> types \<longleftrightarrow> v < 2)
       \<and> ''Wind_danger'' \<notin> types)"
proof -
  have "map type (evaluateRisk (snapshot (Some p) (Some u) (Some t) (Some v) None)) =
     (if p > 55 then [''AirQuality_danger''] else if p > 35 then [''AirQuality_severe''] else [])
     @ (if u > 6 then [''UV_danger''] else [])
     @ (if t > 40 then [''Temp_danger''] else [])
     @ (if v < 2 then [''Visibility_danger''] else [])"
    by (simp add: evaluateRisk_present [where p = p and u = u and t = t and v = v])
  then show ?thesis
    using evaluateRisk_gate [of d] by (simp add: Let_def)
qed

theorem evaluateRisk_required_fields_witness:
  "data_uv (snapshot (Some 60) None (Some 45) (Some 1) (Some 80)) = None
   \<and> evaluateRisk (snapshot (Some 60) None (Some 45) (Some 1) (Some 80)) = []"
  using evaluateRisk_required_fields [of "snapshot (Some 60) None (Some 45) (Some 1) (Some 80)"]
  by simp

text \<open>
  C4. The alerts come out in the fixed order air quality, UV, temperature, visibility,
  wind: their types are always a subsequence of that order, with one of the two
  air-quality types at the head. The readings PM2.5 5, UV 7, 45 degrees, 1 km and
  80 km/h give the four alerts UV, temperature, visibility and wind, all of severity
  danger, and none for air quality.
\<close>

theorem evaluateRisk_order:
  "(subseq (map type (evaluateRisk d))
      [''AirQuality_danger'', ''UV_danger'', ''Temp_danger'', ''Visibility_danger'', ''Wind_danger'']
    \<or> subseq (map type (evaluateRisk d))
      [''AirQuality_severe'', ''UV_danger'', ''Temp_danger'', ''Visibility_danger'', ''Wind_danger''])
   \<and> evaluateRisk (snapshot (Some 5) (Some 7) (Some 45) (Some 1) (Some 80)) =
      [\<lparr>type = ''UV_danger'', severity = ''danger'', message = Extreme_UV 7\<rparr>,
       \<lparr>type = ''Temp_danger'', severity = ''danger'', message = Extreme_heat 45\<rparr>,
       \<lparr>type = ''Visibility_danger'', severity = ''danger'', message = Very_poor_visibility 1\<rparr>,
       \<lparr>type = ''Wind_danger'', severity = ''danger'', message = Storm_level_winds 80\<rparr>]"
proof -
  have opt: "subseq (if b then [x] else []) [x]" for b and x :: string
    by simp
  have tail: "subseq
     ((if u > 6 then [''UV_danger''] else [])
     @ (if t > 40 then [''Temp_danger''] else [])
     @ (if v < 2 then [''Visibility_danger''] else [])
     @ (case w of None \<Rightarrow> [] | Some w \<Rightarrow> if w > 70 then [''Wind_danger''] else []))
     ([''UV_danger''] @ [''Temp_danger''] @ [''Visibility_danger''] @ [''Wind_danger''])"
    for u t v :: real and w :: "real option"
    by (intro list_emb_append_mono opt) (simp split: option.splits)
  have general: "subseq (map type (evaluateRisk d))
      ([''AirQuality_danger''] @ [''UV_danger''] @ [''Temp_danger''] @ [''Visibility_danger''] @ [''Wind_danger''])
    \<or> subseq (map type (evaluateRisk d))
      ([''AirQuality_severe''] @ [''UV_danger''] @ [''Temp_danger''] @ [''Visibility_danger''] @ [''Wind_danger''])"
  proof (cases "data_pm25 d = None \<or> data_uv d = None \<or> data_temp d = None \<or> data_visibility d = None")
    case True
    then show ?thesis by (simp add: evaluateRisk_gate)
  next
    case False
    then obtain p u t v where r: "data_pm25 d = Some p" "data_uv d = Some u"
      "data_temp d = Some t" "data_visibility d = Some v"
      by auto
    show ?thesis
    proof (cases "p > 55")
      case True
      have "subseq (map type (evaluateRisk d))
       ([''AirQuality_danger''] @ [''UV_danger''] @ [''Temp_danger''] @ [''Visibility_danger''] @ [''Wind_danger''])"
        unfolding evaluateRisk_present [OF r] using True
        by (intro list_emb_append_mono tail) simp
      then show ?thesis ..
    next
      case False
      have "subseq (map type (evaluateRisk d))
       ([''AirQuality_severe''] @ [''UV_danger''] @ [''Temp_danger''] @ [''Visibility_danger''] @ [''Wind_danger''])"
        unfolding evaluateRisk_present [OF r] using False
        by (intro list_emb_append_mono tail) simp
      then show ?thesis ..
    qed
  qed
  have example: "evaluateRisk (snapshot (Some 5) (Some 7) (Some 45) (Some 1) (Some 80)) =
      [\<lparr>type = ''UV_danger'', severity = ''danger'', message = Extreme_UV 7\<rparr>,
       \<lparr>type = ''Temp_danger'', severity = ''danger'', message = Extreme_heat 45\<rparr>,
       \<lparr>type = ''Visibility_danger'', severity = ''danger'', message = Very_poor_visibility 1\<rparr>,
       \<lparr>type = ''Wind_danger'', severity = ''danger'', message = Storm_level_winds 80\<rparr>]"
    by (simp add: evaluateRisk_def RISK_LIMITS)
  from general example show ?thesis by simp
qed

section \<open>Properties of the reconciliation\<close>

lemma severeAndAbove_id:
  "\<forall>a\<in>set as. severity a = ''severe'' \<or> severity a = ''danger'' \<Longrightarrow> severeAndAbove as = as"
  by (simp add: severeAndAbove_def)

text \<open>
  C1. When every alert given to the reconciliation has severity severe or danger, the
  alerts to notify are those whose type is not among the types alerted before, in the
  order they were given. If the types alerted before are exactly the types of the alerts
  given, nothing is notified and the types stored afterwards are, as a set, the same.
\<close>

theorem reconcile_new_alerts:
  assumes "\<forall>a\<in>set activeAlerts. severity a = ''severe'' \<or> severity a = ''danger''"
  shows "fst (reconcile activeAlerts S) = filter (\<lambda>a. type a \<notin> set S) activeAlerts
    \<and> (set S = type ` set activeAlerts \<longrightarrow>
         fst (reconcile activeAlerts S) = [] \<and> set (snd (reconcile activeAlerts S)) = set S)"
proof -
  have act: "severeAndAbove activeAlerts = activeAlerts"
    using assms by (rule severeAndAbove_id)
  have sub: "fst (reconcile activeAlerts S) = filter (\<lambda>a. type a \<notin> set S) activeAlerts"
    by (simp add: reconcile_def act)
  have idem: "fst (reconcile activeAlerts S) = [] \<and> set (snd (reconcile activeAlerts S)) = set S"
    if "set S = type ` set activeAlerts"
    using that by (simp add: reconcile_def act filter_empty_conv)
  from sub idem show ?thesis by blast
qed

theorem reconcile_new_alerts_witness:
  "severity \<lparr>type = ''UV_danger'', severity = ''danger'', message = Extreme_UV 7\<rparr> = ''danger''
   \<and> set [''UV_danger''] =
       type ` set [\<lparr>type = ''UV_danger'', severity = ''danger'', message = Extreme_UV 7\<rparr>]
   \<and> fst (reconcile [\<lparr>type = ''UV_danger'', severity = ''danger'', message = Extreme_UV 7\<rparr>]
        [''UV_danger'']) = []
   \<and> set (snd (reconcile [\<lparr>type = ''UV_danger'', severity = ''danger'', message = Extreme_UV 7\<rparr>]
        [''UV_danger''])) = set [''UV_danger'']"
  using reconcile_new_alerts [of "[\<lparr>type = ''UV_danger'', severity = ''danger'', message = Extreme_UV 7\<rparr>]"
      "[''UV_danger'']"]
  by simp

section \<open>Properties of the routes\<close>

lemma nullish_or_eq:
  "nullish_or v d = (if v = JUndefined \<or> v = JNull then d else v)"
  by (cases v) simp_all


text \<open>Keys stay unique, as in a \<^verbatim>\<open>Map\<close>.\<close>

lemma register_distinct:
  "distinct (map fst userStore) \<Longrightarrow> distinct (map fst (fst (register req userStore)))"
  by (simp add: register_def distinct_update split: jsval.splits)

lemma update_location_distinct:
  "distinct (map fst userStore) \<Longrightarrow> distinct (map fst (fst (update_location req userStore)))"
  by (simp add: update_location_def distinct_update split: jsval.splits option.splits)

text \<open>
  C6, as stated, fails: \<^verbatim>\<open>/register\<close> for a token the store already holds stores a
  fresh user object, so the alerted types \<^verbatim>\<open>UV_danger\<close> of the entry are gone.
\<close>

theorem register_resets_lastAlertedTypes_counterexample:
  "map_of (fst (register
      \<lparr>body_fcmToken = JStr ''ExponentPushToken[a]'', body_latitude = JNum 10,
       body_longitude = JNum 20, body_appOpen = JUndefined\<rparr>
      [(''ExponentPushToken[a]'',
        \<lparr>fcmToken = ''ExponentPushToken[a]'', latitude = JNum 10, longitude = JNum 20,
         appOpen = JBool False, lastAlertedTypes = [''UV_danger'']\<rparr>)]))
     ''ExponentPushToken[a]''
   = Some \<lparr>fcmToken = ''ExponentPushToken[a]'', latitude = JNum 10, longitude = JNum 20,
         appOpen = JBool False, lastAlertedTypes = []\<rparr>"
  by (simp add: register_def)

text \<open>
  C6, amended. For a request whose token, latitude and longitude are all truthy (the
  required-field check of both routes): it is \<^verbatim>\<open>/update-location\<close> that, for a token
  the store holds, overwrites the location and \<^verbatim>\<open>appOpen\<close> only (the given
  \<^verbatim>\<open>appOpen\<close>, or false when it is absent or null) and leaves the alerted types and
  every other entry as they were. \<^verbatim>\<open>/register\<close>, when the token also has the Expo
  prefix, stores a fresh entry with the given location, \<^verbatim>\<open>appOpen\<close> false and no
  alerted types, in place of the old entry when the token was already there.
\<close>

theorem update_location_keeps_lastAlertedTypes:
  assumes "truthy (body_fcmToken req)" "truthy (body_latitude req)"
    "truthy (body_longitude req)" "body_fcmToken req = JStr tok"
  shows "(map_of userStore tok = Some u \<longrightarrow>
           update_location req userStore =
             (AList.update tok
                (u\<lparr>latitude := body_latitude req, longitude := body_longitude req,
                   appOpen := (if body_appOpen req = JUndefined \<or> body_appOpen req = JNull
                               then JBool False else body_appOpen req)\<rparr>) userStore,
              Json 200 [(''success'', JBool True)]))
    \<and> (prefix ''ExponentPushToken['' tok \<longrightarrow>
           register req userStore =
             (AList.update tok
                \<lparr>fcmToken = tok, latitude = body_latitude req,
                 longitude = body_longitude req, appOpen = JBool False,
                 lastAlertedTypes = []\<rparr> userStore,
              Json 200 [(''success'', JBool True),
                        (''message'', JStr ''Device registered for push alerts.'')]))"
proof -
  have upd: "update_location req userStore =
             (AList.update tok
                (u\<lparr>latitude := body_latitude req, longitude := body_longitude req,
                   appOpen := (if body_appOpen req = JUndefined \<or> body_appOpen req = JNull
                               then JBool False else body_appOpen req)\<rparr>) userStore,
              Json 200 [(''success'', JBool True)])"
    if "map_of userStore tok = Some u"
    using that assms by (simp add: update_location_def nullish_or_eq)
  have reg: "register req userStore =
             (AList.update tok
                \<lparr>fcmToken = tok, latitude = body_latitude req,
                 longitude = body_longitude req, appOpen = JBool False,
                 lastAlertedTypes = []\<rparr> userStore,
              Json 200 [(''success'', JBool True),
                        (''message'', JStr ''Device registered for push alerts.'')])"
    if "prefix ''ExponentPushToken['' tok"
    using that assms by (simp add: register_def)
  from upd reg show ?thesis by blast
qed

theorem update_location_keeps_lastAlertedTypes_witness:
  "truthy (JStr ''ExponentPushToken[a]'') \<and> truthy (JNum 11) \<and> truthy (JNum 21)
   \<and> map_of [(''ExponentPushToken[a]'',
        \<lparr>fcmToken = ''ExponentPushToken[a]'', latitude = JNum 10, longitude = JNum 20,
         appOpen = JBool False, lastAlertedTypes = [''UV_danger'']\<rparr>)] ''ExponentPushToken[a]''
      = Some \<lparr>fcmToken = ''ExponentPushToken[a]'', latitude = JNum 10, longitude = JNum 20,
         appOpen = JBool False, lastAlertedTypes = [''UV_danger'']\<rparr>
   \<and> prefix ''ExponentPushToken['' ''ExponentPushToken[a]''
   \<and> update_location
        \<lparr>body_fcmToken = JStr ''ExponentPushToken[a]'', body_latitude = JNum 11,
         body_longitude = JNum 21, body_appOpen = JBool True\<rparr>
        [(''ExponentPushToken[a]'',
          \<lparr>fcmToken = ''ExponentPushToken[a]'', latitude = JNum 10, longitude = JNum 20,
           appOpen = JBool False, lastAlertedTypes = [''UV_danger'']\<rparr>)]
      = ([(''ExponentPushToken[a]'',
          \<lparr>fcmToken = ''ExponentPushToken[a]'', latitude = JNum 11, longitude = JNum 21,
           appOpen = JBool True, lastAlertedTypes = [''UV_danger'']\<rparr>)],
         Json 200 [(''success'', JBool True)])
   \<and> register
        \<lparr>body_fcmToken = JStr ''ExponentPushToken[a]'', body_latitude = JNum 11,
         body_longitude = JNum 21, body_appOpen = JBool True\<rparr>
        [(''ExponentPushToken[a]'',
          \<lparr>fcmToken = ''ExponentPushToken[a]'', latitude = JNum 10, longitude = JNum 20,
           appOpen = JBool False, lastAlertedTypes = [''UV_danger'']\<rparr>)]
      = ([(''ExponentPushToken[a]'',
          \<lparr>fcmToken = ''ExponentPushToken[a]'', latitude = JNum 11, longitude = JNum 21,
           appOpen = JBool False, lastAlertedTypes = []\<rparr>)],
         Json 200 [(''success'', JBool True),
                   (''message'', JStr ''Device registered for push alerts.'')])"
  using update_location_keeps_lastAlertedTypes [of "\<lparr>body_fcmToken = JStr ''ExponentPushToken[a]'', body_latitude = JNum 11,
         body_longitude = JNum 21, body_appOpen = JBool True\<rparr>" "''ExponentPushToken[a]''"
       "[(''ExponentPushToken[a]'',
          \<lparr>fcmToken = ''ExponentPushToken[a]'', latitude = JNum 10, longitude = JNum 20,
           appOpen = JBool False, lastAlertedTypes = [''UV_danger'']\<rparr>)]"
       "\<lparr>fcmToken = ''ExponentPushToken[a]'', latitude = JNum 10, longitude = JNum 20,
         appOpen = JBool False, lastAlertedTypes = [''UV_danger'']\<rparr>"]
  by simp




text \<open>
  C10. A registration or a location update whose latitude or longitude is the number 0,
  or whose token is the empty string, is answered with status 400 and leaves the store
  as it was: the required-field check is a truthiness check.
\<close>

theorem falsy_fields_rejected:
  assumes "body_latitude req = JNum 0 \<or> body_longitude req = JNum 0
     \<or> body_fcmToken req = JStr []"
  shows "register req userStore =
      (userStore, Json 400 [(''error'', JStr ''fcmToken, latitude, and longitude are required.'')])
    \<and> update_location req userStore =
      (userStore, Json 400 [(''error'', JStr ''fcmToken, latitude, and longitude are required.'')])"
  using assms by (auto simp: register_def update_location_def)

theorem falsy_fields_rejected_witness:
  "body_latitude \<lparr>body_fcmToken = JStr ''ExponentPushToken[a]'', body_latitude = JNum 0,
         body_longitude = JNum 21, body_appOpen = JUndefined\<rparr> = JNum 0
   \<and> register \<lparr>body_fcmToken = JStr ''ExponentPushToken[a]'', body_latitude = JNum 0,
         body_longitude = JNum 21, body_appOpen = JUndefined\<rparr> [] =
      ([], Json 400 [(''error'', JStr ''fcmToken, latitude, and longitude are required.'')])
   \<and> update_location \<lparr>body_fcmToken = JStr ''ExponentPushToken[a]'', body_latitude = JNum 0,
         body_longitude = JNum 21, body_appOpen = JUndefined\<rparr> [] =
      ([], Json 400 [(''error'', JStr ''fcmToken, latitude, and longitude are required.'')])"
  using falsy_fields_rejected [of "\<lparr>body_fcmToken = JStr ''ExponentPushToken[a]'', body_latitude = JNum 0,
         body_longitude = JNum 21, body_appOpen = JUndefined\<rparr>" "[]"]
  by simp

section \<open>Properties of the sender\<close>

lemma sendExpoPushNotification_fst:
  "fst (sendExpoPushNotification e k a st) =
     (if permanently_invalid (expo_post e k a) then AList.delete k st else st)"
  by (simp add: sendExpoPushNotification_def permanently_invalid_def Let_def
      split: awaited.splits option.splits)

lemma sendExpoPushNotification_snd:
  "snd (sendExpoPushNotification e k a st) =
     [Push k (if severity a = ''danger'' then ''Dangerous Condition'' else ''Severe Condition'') a]"
  by (simp add: sendExpoPushNotification_def Let_def)

lemma send_newAlerts_fst:
  "fst (send_newAlerts e k as st) =
     (if \<exists>a\<in>set as. permanently_invalid (expo_post e k a) then AList.delete k st else st)"
proof (induction as arbitrary: st)
  case Nil
  show ?case by simp
next
  case (Cons a as)
  show ?case
    using Cons.IH [of "fst (sendExpoPushNotification e k a st)"]
    by (simp add: split_beta sendExpoPushNotification_fst delete_idem)
qed

lemma send_newAlerts_snd:
  "snd (send_newAlerts e k as st) =
     map (\<lambda>a. Push k (if severity a = ''danger'' then ''Dangerous Condition''
                       else ''Severe Condition'') a) as"
  by (induction as arbitrary: st) (simp_all add: split_beta sendExpoPushNotification_snd)

section \<open>Properties of the sweep\<close>

text \<open>What the loop body does to the store and which requests it sends.\<close>

lemma checkAllUsers_body_fst:
  "fst (checkAllUsers_body e k u st) =
    (if truthy (appOpen u) then st
     else case weather_get e k (latitude u) (longitude u) of
       Rejects \<Rightarrow> st
     | Resolves data \<Rightarrow>
         if \<exists>a\<in>set (fst (reconcile (evaluateRisk data) (lastAlertedTypes u))).
              permanently_invalid (expo_post e k a)
         then AList.delete k st
         else (case map_of st k of
                 None \<Rightarrow> st
               | Some _ \<Rightarrow>
                   AList.update k
                     (u\<lparr>lastAlertedTypes := snd (reconcile (evaluateRisk data) (lastAlertedTypes u))\<rparr>)
                     st))"
proof -
  have del: "map_of (AList.delete k st) k = None"
    by (simp add: delete_conv')
  show ?thesis
    unfolding checkAllUsers_body_def
    by (simp add: split_beta Let_def send_newAlerts_fst del split: awaited.splits option.splits)
qed

lemma checkAllUsers_body_snd:
  "snd (checkAllUsers_body e k u st) =
    (if truthy (appOpen u) then []
     else case weather_get e k (latitude u) (longitude u) of
       Rejects \<Rightarrow> [Fetch k (latitude u) (longitude u)]
     | Resolves data \<Rightarrow>
         Fetch k (latitude u) (longitude u) #
         map (\<lambda>a. Push k (if severity a = ''danger'' then ''Dangerous Condition''
                           else ''Severe Condition'') a)
           (fst (reconcile (evaluateRisk data) (lastAlertedTypes u))))"
  unfolding checkAllUsers_body_def
  by (simp add: split_beta Let_def send_newAlerts_snd split: awaited.splits)

lemma checkAllUsers_body_frame:
  "k' \<noteq> k \<Longrightarrow> map_of (fst (checkAllUsers_body e k u st)) k' = map_of st k'"
  by (simp add: checkAllUsers_body_fst delete_conv' update_conv'
      split: awaited.splits option.splits)

lemma checkAllUsers_body_own:
  "map_of st k = Some u \<Longrightarrow>
   map_of (fst (checkAllUsers_body e k u st)) k =
   map_of (fst (checkAllUsers_body e k u [(k, u)])) k"
  by (simp add: checkAllUsers_body_fst delete_conv' update_conv'
      split: awaited.splits option.splits)

lemma checkAllUsers_body_events_store:
  "snd (checkAllUsers_body e k u st) = snd (checkAllUsers_body e k u st')"
  by (simp add: checkAllUsers_body_snd)

lemma checkAllUsers_body_event_token:
  "ev \<in> set (snd (checkAllUsers_body e k u st)) \<Longrightarrow> event_token ev = k"
  by (auto simp: checkAllUsers_body_snd split: if_splits awaited.splits)

lemma checkAllUsers_body_alone:
  "map_of (fst (checkAllUsers_body e k u [(k, u)])) k =
    (if truthy (appOpen u) then Some u
     else case weather_get e k (latitude u) (longitude u) of
       Rejects \<Rightarrow> Some u
     | Resolves data \<Rightarrow>
         if \<exists>a\<in>set (fst (reconcile (evaluateRisk data) (lastAlertedTypes u))).
              permanently_invalid (expo_post e k a)
         then None
         else Some (u\<lparr>lastAlertedTypes := map type (severeAndAbove (evaluateRisk data))\<rparr>))"
  by (simp add: checkAllUsers_body_fst reconcile_def split: awaited.splits)

lemma evaluateRisk_pm25_60:
  "evaluateRisk (snapshot (Some 60) (Some 1) (Some 10) (Some 10) None) =
     [\<lparr>type = ''AirQuality_danger'', severity = ''danger'', message = Hazardous_air 60\<rparr>]"
  by (simp add: evaluateRisk_def RISK_LIMITS)

text \<open>
  The loop over distinct keys treats each key on its own: the entry of a key after the
  loop, and the requests sent for it, are those of running the body on that entry alone.
\<close>

lemma checkAllUsers_loop_lookup:
  "distinct ks \<Longrightarrow>
   map_of (fst (checkAllUsers_loop e ks st)) k =
     (if k \<in> set ks then
        (case map_of st k of
           None \<Rightarrow> None
         | Some u \<Rightarrow> map_of (fst (checkAllUsers_body e k u [(k, u)])) k)
      else map_of st k)"
proof (induction ks arbitrary: st)
  case Nil
  show ?case by simp
next
  case (Cons k0 rest)
  from Cons.prems have d: "distinct rest" and n: "k0 \<notin> set rest"
    by simp_all
  note IH = Cons.IH [OF d]
  show ?case
  proof (cases "map_of st k0")
    case None
    then have step: "checkAllUsers_loop e (k0 # rest) st = checkAllUsers_loop e rest st"
      by simp
    show ?thesis
    proof (cases "k = k0")
      case True
      then show ?thesis
        unfolding step IH using n None by simp
    next
      case False
      then show ?thesis
        unfolding step IH by simp
    qed
  next
    case (Some u0)
    let ?st1 = "fst (checkAllUsers_body e k0 u0 st)"
    have step: "fst (checkAllUsers_loop e (k0 # rest) st) = fst (checkAllUsers_loop e rest ?st1)"
      using Some by (simp add: split_beta)
    show ?thesis
    proof (cases "k = k0")
      case True
      have "map_of ?st1 k0 = map_of (fst (checkAllUsers_body e k0 u0 [(k0, u0)])) k0"
        using Some by (rule checkAllUsers_body_own)
      then show ?thesis
        unfolding step IH using n Some True by simp
    next
      case False
      then have "map_of ?st1 k = map_of st k"
        by (rule checkAllUsers_body_frame)
      then show ?thesis
        unfolding step IH using False by simp
    qed
  qed
qed

lemma checkAllUsers_body_events_own:
  "filter (\<lambda>ev. event_token ev = k) (snd (checkAllUsers_body e k u st)) =
     snd (checkAllUsers_body e k u st)"
  by (simp add: checkAllUsers_body_snd split: awaited.splits)

lemma checkAllUsers_body_events_other:
  "k' \<noteq> k \<Longrightarrow> filter (\<lambda>ev. event_token ev = k') (snd (checkAllUsers_body e k u st)) = []"
  by (simp add: checkAllUsers_body_snd split: awaited.splits)

lemma checkAllUsers_loop_events:
  "distinct ks \<Longrightarrow>
   filter (\<lambda>ev. event_token ev = k) (snd (checkAllUsers_loop e ks st)) =
     (if k \<in> set ks then
        (case map_of st k of
           None \<Rightarrow> []
         | Some u \<Rightarrow> snd (checkAllUsers_body e k u [(k, u)]))
      else [])"
proof (induction ks arbitrary: st)
  case Nil
  show ?case by simp
next
  case (Cons k0 rest)
  from Cons.prems have d: "distinct rest" and n: "k0 \<notin> set rest"
    by simp_all
  note IH = Cons.IH [OF d]
  show ?case
  proof (cases "map_of st k0")
    case None
    then have step: "checkAllUsers_loop e (k0 # rest) st = checkAllUsers_loop e rest st"
      by simp
    show ?thesis
    proof (cases "k = k0")
      case True
      then show ?thesis
        unfolding step IH using n None by simp
    next
      case False
      then show ?thesis
        unfolding step IH by simp
    qed
  next
    case (Some u0)
    let ?st1 = "fst (checkAllUsers_body e k0 u0 st)"
    let ?ev1 = "snd (checkAllUsers_body e k0 u0 st)"
    have step: "snd (checkAllUsers_loop e (k0 # rest) st) =
        ?ev1 @ snd (checkAllUsers_loop e rest ?st1)"
      using Some by (simp add: split_beta)
    show ?thesis
    proof (cases "k = k0")
      case True
      have "?ev1 = snd (checkAllUsers_body e k0 u0 [(k0, u0)])"
        by (rule checkAllUsers_body_events_store)
      then show ?thesis
        unfolding step filter_append IH using n Some True
        by (simp add: checkAllUsers_body_events_own)
    next
      case False
      then have "map_of ?st1 k = map_of st k"
        by (rule checkAllUsers_body_frame)
      then show ?thesis
        unfolding step filter_append IH using False
        by (simp add: checkAllUsers_body_events_other)
    qed
  qed
qed

lemma checkAllUsers_lookup:
  assumes "distinct (map fst st)"
  shows "map_of (fst (checkAllUsers e st)) k =
     (case map_of st k of
        None \<Rightarrow> None
      | Some u \<Rightarrow> map_of (fst (checkAllUsers_body e k u [(k, u)])) k)"
proof (cases "k \<in> set (map fst st)")
  case True
  then have "st \<noteq> []" by auto
  then have "checkAllUsers e st = checkAllUsers_loop e (map fst st) st"
    by (simp add: checkAllUsers_def)
  then show ?thesis
    using True checkAllUsers_loop_lookup [OF assms, of e st k] by simp
next
  case False
  then have none: "map_of st k = None"
    by (simp add: map_of_eq_None_iff)
  have "map_of (fst (checkAllUsers e st)) k = map_of st k"
    using False checkAllUsers_loop_lookup [OF assms, of e st k]
    by (simp add: checkAllUsers_def)
  then show ?thesis
    using none by simp
qed

lemma checkAllUsers_events:
  assumes "distinct (map fst st)"
  shows "filter (\<lambda>ev. event_token ev = k) (snd (checkAllUsers e st)) =
     (case map_of st k of
        None \<Rightarrow> []
      | Some u \<Rightarrow> snd (checkAllUsers_body e k u [(k, u)]))"
proof (cases "k \<in> set (map fst st)")
  case True
  then have "st \<noteq> []" by auto
  then have "checkAllUsers e st = checkAllUsers_loop e (map fst st) st"
    by (simp add: checkAllUsers_def)
  then show ?thesis
    using True checkAllUsers_loop_events [OF assms, of k e st] by simp
next
  case False
  then have none: "map_of st k = None"
    by (simp add: map_of_eq_None_iff)
  have "filter (\<lambda>ev. event_token ev = k) (snd (checkAllUsers e st)) = []"
    using False checkAllUsers_loop_events [OF assms, of k e st]
    by (simp add: checkAllUsers_def)
  then show ?thesis
    using none by simp
qed

lemma checkAllUsers_body_distinct:
  "distinct (map fst st) \<Longrightarrow> distinct (map fst (fst (checkAllUsers_body e k u st)))"
  by (simp add: checkAllUsers_body_fst distinct_update distinct_delete
      split: awaited.splits option.splits)

lemma checkAllUsers_loop_distinct:
  "distinct (map fst st) \<Longrightarrow> distinct (map fst (fst (checkAllUsers_loop e ks st)))"
proof (induction ks arbitrary: st)
  case Nil
  then show ?case by simp
next
  case (Cons k0 rest)
  show ?case
  proof (cases "map_of st k0")
    case None
    then show ?thesis
      using Cons by simp
  next
    case (Some u0)
    have "distinct (map fst (fst (checkAllUsers_body e k0 u0 st)))"
      using Cons.prems by (rule checkAllUsers_body_distinct)
    then have "distinct (map fst (fst (checkAllUsers_loop e rest (fst (checkAllUsers_body e k0 u0 st)))))"
      by (rule Cons.IH)
    then show ?thesis
      using Some by (simp add: split_beta)
  qed
qed

lemma checkAllUsers_distinct:
  "distinct (map fst userStore) \<Longrightarrow> distinct (map fst (fst (checkAllUsers e userStore)))"
  by (simp add: checkAllUsers_def checkAllUsers_loop_distinct)

text \<open>
  C2. The types stored by the reconciliation are the types of this sweep's
  severe-or-above alerts whatever was stored before: the old list is replaced, not
  merged. With no alert and type A stored, nothing is notified and nothing stays
  stored; an alert of type A reconciled against that result is notified again. In a
  sweep, a subscriber whose app is closed and whose weather request is answered ends
  with exactly the types of that answer's severe-or-above alerts (or is gone, when the
  push service reported the token invalid).
\<close>

theorem alertedTypes_replaced:
  "snd (reconcile allAlerts prior) = map type (severeAndAbove allAlerts)
   \<and> reconcile [] [type a] = ([], [])
   \<and> (severity a = ''severe'' \<or> severity a = ''danger'' \<longrightarrow>
        fst (reconcile [a] (snd (reconcile [] [type a]))) = [a])
   \<and> (distinct (map fst userStore) \<and> map_of userStore k = Some u \<and> \<not> truthy (appOpen u)
        \<and> weather_get e k (latitude u) (longitude u) = Resolves data \<longrightarrow>
        map_of (fst (checkAllUsers e userStore)) k =
          (if \<exists>a\<in>set (fst (reconcile (evaluateRisk data) (lastAlertedTypes u))).
                permanently_invalid (expo_post e k a)
           then None
           else Some (u\<lparr>lastAlertedTypes := map type (severeAndAbove (evaluateRisk data))\<rparr>)))"
proof -
  have replace: "snd (reconcile allAlerts prior) = map type (severeAndAbove allAlerts)"
    by (simp add: reconcile_def)
  have cleared: "reconcile [] [type a] = ([], [])"
    by (simp add: reconcile_def severeAndAbove_def)
  have refires: "fst (reconcile [a] (snd (reconcile [] [type a]))) = [a]"
    if "severity a = ''severe'' \<or> severity a = ''danger''"
    using that by (auto simp: reconcile_def severeAndAbove_def)
  have sweep: "map_of (fst (checkAllUsers e userStore)) k =
          (if \<exists>a\<in>set (fst (reconcile (evaluateRisk data) (lastAlertedTypes u))).
                permanently_invalid (expo_post e k a)
           then None
           else Some (u\<lparr>lastAlertedTypes := map type (severeAndAbove (evaluateRisk data))\<rparr>))"
    if "distinct (map fst userStore)" "map_of userStore k = Some u" "\<not> truthy (appOpen u)"
      "weather_get e k (latitude u) (longitude u) = Resolves data"
    using that by (simp add: checkAllUsers_lookup checkAllUsers_body_alone)
  from replace cleared refires sweep show ?thesis by blast
qed

theorem alertedTypes_replaced_witness:
  "map_of (fst (checkAllUsers
      \<lparr>weather_get = (\<lambda>tok lat lon. Resolves (snapshot (Some 60) (Some 1) (Some 10) (Some 10) None)),
       expo_post = (\<lambda>tok a. Resolves (Some \<lparr>status = ''ok'', details_error = None\<rparr>))\<rparr>
      [(''ExponentPushToken[a]'',
        \<lparr>fcmToken = ''ExponentPushToken[a]'', latitude = JNum 10, longitude = JNum 20,
         appOpen = JBool False, lastAlertedTypes = [''UV_danger'']\<rparr>)]))
     ''ExponentPushToken[a]''
   = Some \<lparr>fcmToken = ''ExponentPushToken[a]'', latitude = JNum 10, longitude = JNum 20,
         appOpen = JBool False, lastAlertedTypes = [''AirQuality_danger'']\<rparr>"
  using alertedTypes_replaced [of _ _ _
      "[(''ExponentPushToken[a]'',
        \<lparr>fcmToken = ''ExponentPushToken[a]'', latitude = JNum 10, longitude = JNum 20,
         appOpen = JBool False, lastAlertedTypes = [''UV_danger'']\<rparr>)]"
      "''ExponentPushToken[a]''"
      "\<lparr>fcmToken = ''ExponentPushToken[a]'', latitude = JNum 10, longitude = JNum 20,
         appOpen = JBool False, lastAlertedTypes = [''UV_danger'']\<rparr>"
      "\<lparr>weather_get = (\<lambda>tok lat lon. Resolves (snapshot (Some 60) (Some 1) (Some 10) (Some 10) None)),
       expo_post = (\<lambda>tok a. Resolves (Some \<lparr>status = ''ok'', details_error = None\<rparr>))\<rparr>"
      "snapshot (Some 60) (Some 1) (Some 10) (Some 10) None"]
  by (simp add: evaluateRisk_pm25_60 reconcile_def severeAndAbove_def permanently_invalid_def)

text \<open>
  C5. A subscriber whose \<^verbatim>\<open>appOpen\<close> is truthy when the sweep runs is passed over:
  the entry is the same after the sweep, and the sweep sends no weather request and no
  push for that token.
\<close>

theorem appOpen_skipped:
  assumes "distinct (map fst userStore)" "map_of userStore k = Some u" "truthy (appOpen u)"
  shows "map_of (fst (checkAllUsers e userStore)) k = Some u
    \<and> k \<notin> event_token ` set (snd (checkAllUsers e userStore))"
proof -
  have state: "map_of (fst (checkAllUsers e userStore)) k = Some u"
    using assms by (simp add: checkAllUsers_lookup checkAllUsers_body_alone)
  have "filter (\<lambda>ev. event_token ev = k) (snd (checkAllUsers e userStore)) = []"
    using assms by (simp add: checkAllUsers_events checkAllUsers_body_snd)
  then have "k \<notin> event_token ` set (snd (checkAllUsers e userStore))"
    by (auto simp: filter_empty_conv)
  with state show ?thesis ..
qed

theorem appOpen_skipped_witness:
  "truthy (JBool True)
   \<and> map_of (fst (checkAllUsers
      \<lparr>weather_get = (\<lambda>tok lat lon. Resolves (snapshot (Some 60) (Some 1) (Some 10) (Some 10) None)),
       expo_post = (\<lambda>tok a. Resolves (Some \<lparr>status = ''ok'', details_error = None\<rparr>))\<rparr>
      [(''ExponentPushToken[a]'',
        \<lparr>fcmToken = ''ExponentPushToken[a]'', latitude = JNum 10, longitude = JNum 20,
         appOpen = JBool True, lastAlertedTypes = [''UV_danger'']\<rparr>)]))
     ''ExponentPushToken[a]''
   = Some \<lparr>fcmToken = ''ExponentPushToken[a]'', latitude = JNum 10, longitude = JNum 20,
         appOpen = JBool True, lastAlertedTypes = [''UV_danger'']\<rparr>
   \<and> ''ExponentPushToken[a]'' \<notin> event_token ` set (snd (checkAllUsers
      \<lparr>weather_get = (\<lambda>tok lat lon. Resolves (snapshot (Some 60) (Some 1) (Some 10) (Some 10) None)),
       expo_post = (\<lambda>tok a. Resolves (Some \<lparr>status = ''ok'', details_error = None\<rparr>))\<rparr>
      [(''ExponentPushToken[a]'',
        \<lparr>fcmToken = ''ExponentPushToken[a]'', latitude = JNum 10, longitude = JNum 20,
         appOpen = JBool True, lastAlertedTypes = [''UV_danger'']\<rparr>)]))"
  using appOpen_skipped [of
      "[(''ExponentPushToken[a]'',
        \<lparr>fcmToken = ''ExponentPushToken[a]'', latitude = JNum 10, longitude = JNum 20,
         appOpen = JBool True, lastAlertedTypes = [''UV_danger'']\<rparr>)]"
      "''ExponentPushToken[a]''"
      "\<lparr>fcmToken = ''ExponentPushToken[a]'', latitude = JNum 10, longitude = JNum 20,
         appOpen = JBool True, lastAlertedTypes = [''UV_danger'']\<rparr>"
      "\<lparr>weather_get = (\<lambda>tok lat lon. Resolves (snapshot (Some 60) (Some 1) (Some 10) (Some 10) None)),
       expo_post = (\<lambda>tok a. Resolves (Some \<lparr>status = ''ok'', details_error = None\<rparr>))\<rparr>"]
  by simp

text \<open>
  C7. When the weather request for a subscriber fails, the entry of that subscriber is
  the same after the sweep and nothing is pushed to it. The sweep goes on: every
  subscriber of the store, whatever failed before or after, ends as if it had been
  checked alone, and the requests sent for it are those of checking it alone.
\<close>

theorem fetch_failure_isolated:
  assumes "distinct (map fst userStore)" "map_of userStore k = Some u" "\<not> truthy (appOpen u)"
    and "weather_get e k (latitude u) (longitude u) = Rejects"
  shows "map_of (fst (checkAllUsers e userStore)) k = Some u
    \<and> filter (\<lambda>ev. event_token ev = k) (snd (checkAllUsers e userStore)) =
        [Fetch k (latitude u) (longitude u)]
    \<and> (\<forall>k' u'. map_of userStore k' = Some u' \<longrightarrow>
          map_of (fst (checkAllUsers e userStore)) k' =
            map_of (fst (checkAllUsers_body e k' u' [(k', u')])) k'
          \<and> filter (\<lambda>ev. event_token ev = k') (snd (checkAllUsers e userStore)) =
            snd (checkAllUsers_body e k' u' [(k', u')]))"
proof -
  have state: "map_of (fst (checkAllUsers e userStore)) k = Some u"
    using assms by (simp add: checkAllUsers_lookup checkAllUsers_body_alone)
  have events: "filter (\<lambda>ev. event_token ev = k) (snd (checkAllUsers e userStore)) =
        [Fetch k (latitude u) (longitude u)]"
    using assms by (simp add: checkAllUsers_events checkAllUsers_body_snd)
  have others: "map_of (fst (checkAllUsers e userStore)) k' =
            map_of (fst (checkAllUsers_body e k' u' [(k', u')])) k'
          \<and> filter (\<lambda>ev. event_token ev = k') (snd (checkAllUsers e userStore)) =
            snd (checkAllUsers_body e k' u' [(k', u')])"
    if "map_of userStore k' = Some u'" for k' u'
    using that assms(1) by (simp add: checkAllUsers_lookup checkAllUsers_events)
  from state events others show ?thesis by blast
qed

theorem fetch_failure_isolated_witness:
  "map_of (fst (checkAllUsers
      \<lparr>weather_get = (\<lambda>tok lat lon. if tok = ''ExponentPushToken[a]'' then Rejects
          else Resolves (snapshot (Some 60) (Some 1) (Some 10) (Some 10) None)),
       expo_post = (\<lambda>tok a. Rejects)\<rparr>
      [(''ExponentPushToken[a]'',
        \<lparr>fcmToken = ''ExponentPushToken[a]'', latitude = JNum 10, longitude = JNum 20,
         appOpen = JBool False, lastAlertedTypes = [''UV_danger'']\<rparr>),
       (''ExponentPushToken[b]'',
        \<lparr>fcmToken = ''ExponentPushToken[b]'', latitude = JNum 30, longitude = JNum 40,
         appOpen = JBool False, lastAlertedTypes = []\<rparr>)]))
     ''ExponentPushToken[a]''
   = Some \<lparr>fcmToken = ''ExponentPushToken[a]'', latitude = JNum 10, longitude = JNum 20,
         appOpen = JBool False, lastAlertedTypes = [''UV_danger'']\<rparr>
  \<and> map_of (fst (checkAllUsers
      \<lparr>weather_get = (\<lambda>tok lat lon. if tok = ''ExponentPushToken[a]'' then Rejects
          else Resolves (snapshot (Some 60) (Some 1) (Some 10) (Some 10) None)),
       expo_post = (\<lambda>tok a. Rejects)\<rparr>
      [(''ExponentPushToken[a]'',
        \<lparr>fcmToken = ''ExponentPushToken[a]'', latitude = JNum 10, longitude = JNum 20,
         appOpen = JBool False, lastAlertedTypes = [''UV_danger'']\<rparr>),
       (''ExponentPushToken[b]'',
        \<lparr>fcmToken = ''ExponentPushToken[b]'', latitude = JNum 30, longitude = JNum 40,
         appOpen = JBool False, lastAlertedTypes = []\<rparr>)]))
     ''ExponentPushToken[b]''
   = Some \<lparr>fcmToken = ''ExponentPushToken[b]'', latitude = JNum 30, longitude = JNum 40,
         appOpen = JBool False, lastAlertedTypes = [''AirQuality_danger'']\<rparr>
  \<and> filter (\<lambda>ev. event_token ev = ''ExponentPushToken[b]'') (snd (checkAllUsers
      \<lparr>weather_get = (\<lambda>tok lat lon. if tok = ''ExponentPushToken[a]'' then Rejects
          else Resolves (snapshot (Some 60) (Some 1) (Some 10) (Some 10) None)),
       expo_post = (\<lambda>tok a. Rejects)\<rparr>
      [(''ExponentPushToken[a]'',
        \<lparr>fcmToken = ''ExponentPushToken[a]'', latitude = JNum 10, longitude = JNum 20,
         appOpen = JBool False, lastAlertedTypes = [''UV_danger'']\<rparr>),
       (''ExponentPushToken[b]'',
        \<lparr>fcmToken = ''ExponentPushToken[b]'', latitude = JNum 30, longitude = JNum 40,
         appOpen = JBool False, lastAlertedTypes = []\<rparr>)]))
   = [Fetch ''ExponentPushToken[b]'' (JNum 30) (JNum 40),
      Push ''ExponentPushToken[b]'' ''Dangerous Condition''
        \<lparr>type = ''AirQuality_danger'', severity = ''danger'', message = Hazardous_air 60\<rparr>]"
proof -
  let ?e = "\<lparr>weather_get = (\<lambda>tok lat lon. if tok = ''ExponentPushToken[a]'' then Rejects
          else Resolves (snapshot (Some 60) (Some 1) (Some 10) (Some 10) None)),
       expo_post = (\<lambda>tok a. Rejects)\<rparr>"
  let ?ua = "\<lparr>fcmToken = ''ExponentPushToken[a]'', latitude = JNum 10, longitude = JNum 20,
         appOpen = JBool False, lastAlertedTypes = [''UV_danger'']\<rparr>"
  let ?ub = "\<lparr>fcmToken = ''ExponentPushToken[b]'', latitude = JNum 30, longitude = JNum 40,
         appOpen = JBool False, lastAlertedTypes = []\<rparr>"
  let ?st = "[(''ExponentPushToken[a]'', ?ua), (''ExponentPushToken[b]'', ?ub)]"
  have alone: "checkAllUsers_body ?e ''ExponentPushToken[b]'' ?ub [(''ExponentPushToken[b]'', ?ub)] =
    ([(''ExponentPushToken[b]'', ?ub\<lparr>lastAlertedTypes := [''AirQuality_danger'']\<rparr>)],
     [Fetch ''ExponentPushToken[b]'' (JNum 30) (JNum 40),
      Push ''ExponentPushToken[b]'' ''Dangerous Condition''
        \<lparr>type = ''AirQuality_danger'', severity = ''danger'', message = Hazardous_air 60\<rparr>])"
    by (simp add: checkAllUsers_body_def evaluateRisk_pm25_60 reconcile_def severeAndAbove_def
        sendExpoPushNotification_def)
  have hyps: "distinct (map fst ?st)" "map_of ?st ''ExponentPushToken[a]'' = Some ?ua"
    "\<not> truthy (appOpen ?ua)"
    "weather_get ?e ''ExponentPushToken[a]'' (latitude ?ua) (longitude ?ua) = Rejects"
    by simp_all
  have b: "map_of ?st ''ExponentPushToken[b]'' = Some ?ub"
    by simp
  from fetch_failure_isolated [OF hyps] b alone show ?thesis
    by simp
qed

text \<open>
  C8. When the push service answers that the token is permanently invalid, the sender
  deletes the token, so a lookup of it finds nothing. In the sweep, the store after the
  loop body for that subscriber is the old store with the token deleted: the alerted
  types are not written back into the store, and after the whole sweep the token is
  still absent.
\<close>

theorem invalid_token_removed:
  assumes "permanently_invalid (expo_post e k a)"
  shows "map_of (fst (sendExpoPushNotification e k a userStore)) k = None
    \<and> (map_of userStore k = Some u \<and> \<not> truthy (appOpen u)
        \<and> weather_get e k (latitude u) (longitude u) = Resolves data
        \<and> a \<in> set (fst (reconcile (evaluateRisk data) (lastAlertedTypes u))) \<longrightarrow>
        fst (checkAllUsers_body e k u userStore) = AList.delete k userStore
        \<and> (distinct (map fst userStore) \<longrightarrow> map_of (fst (checkAllUsers e userStore)) k = None))"
proof -
  have sender: "map_of (fst (sendExpoPushNotification e k a userStore)) k = None"
    using assms by (simp add: sendExpoPushNotification_fst delete_conv')
  have body: "fst (checkAllUsers_body e k u userStore) = AList.delete k userStore"
    if "\<not> truthy (appOpen u)" "weather_get e k (latitude u) (longitude u) = Resolves data"
      "a \<in> set (fst (reconcile (evaluateRisk data) (lastAlertedTypes u)))"
    using that assms by (auto simp: checkAllUsers_body_fst)
  have sweep: "map_of (fst (checkAllUsers e userStore)) k = None"
    if "map_of userStore k = Some u" "\<not> truthy (appOpen u)"
      "weather_get e k (latitude u) (longitude u) = Resolves data"
      "a \<in> set (fst (reconcile (evaluateRisk data) (lastAlertedTypes u)))"
      "distinct (map fst userStore)"
  proof -
    have "\<exists>a\<in>set (fst (reconcile (evaluateRisk data) (lastAlertedTypes u))).
        permanently_invalid (expo_post e k a)"
      using that(4) assms by blast
    then show ?thesis
      using that by (simp add: checkAllUsers_lookup checkAllUsers_body_alone)
  qed
  from sender body sweep show ?thesis by blast
qed

theorem invalid_token_removed_witness:
  "permanently_invalid (Resolves (Some \<lparr>status = ''error'', details_error = Some ''DeviceNotRegistered''\<rparr>))
   \<and> map_of (fst (checkAllUsers
      \<lparr>weather_get = (\<lambda>tok lat lon. Resolves (snapshot (Some 60) (Some 1) (Some 10) (Some 10) None)),
       expo_post = (\<lambda>tok a. Resolves (Some \<lparr>status = ''error'',
                                              details_error = Some ''DeviceNotRegistered''\<rparr>))\<rparr>
      [(''ExponentPushToken[a]'',
        \<lparr>fcmToken = ''ExponentPushToken[a]'', latitude = JNum 10, longitude = JNum 20,
         appOpen = JBool False, lastAlertedTypes = []\<rparr>)]))
     ''ExponentPushToken[a]'' = None"
  using invalid_token_removed [of
      "\<lparr>weather_get = (\<lambda>tok lat lon. Resolves (snapshot (Some 60) (Some 1) (Some 10) (Some 10) None)),
       expo_post = (\<lambda>tok a. Resolves (Some \<lparr>status = ''error'',
                                              details_error = Some ''DeviceNotRegistered''\<rparr>))\<rparr>"
      "''ExponentPushToken[a]''"
      "\<lparr>type = ''AirQuality_danger'', severity = ''danger'', message = Hazardous_air 60\<rparr>"
      "[(''ExponentPushToken[a]'',
        \<lparr>fcmToken = ''ExponentPushToken[a]'', latitude = JNum 10, longitude = JNum 20,
         appOpen = JBool False, lastAlertedTypes = []\<rparr>)]"
      "\<lparr>fcmToken = ''ExponentPushToken[a]'', latitude = JNum 10, longitude = JNum 20,
         appOpen = JBool False, lastAlertedTypes = []\<rparr>"
      "snapshot (Some 60) (Some 1) (Some 10) (Some 10) None"]
  by (simp add: evaluateRisk_pm25_60 reconcile_def severeAndAbove_def permanently_invalid_def)

end
